theory Spec2Isabelle
  imports Complex_Main
begin

section \<open>MacroMoney: headline classification, severity, horizon gate, rebalancing\<close>

text \<open>
  The repository holds four variants of one pipeline. They are told apart by a suffix:
  \<^item> no suffix: \<^verbatim>\<open>src/macromoney.py\<close> (v0.1, cluster ids and a sensitivity matrix);
  \<^item> \<open>_lex\<close>: the first script of \<^verbatim>\<open>src/unnamed/part_000\<close> (Demo v2.1, keyword tiers);
  \<^item> \<open>_emb\<close>: the second script (v2.4, embedding similarity, severity passed to the
    rebalance);
  \<^item> \<open>_hor\<close>: the third script (v2.4, keyword tiers with the horizon gate and the floor
    of 20).

  Numbers: Python's \<open>int\<close> is \<open>int\<close>; Python's \<open>float\<close> is modelled by exact rational
  arithmetic (\<open>rat\<close>), so \<open>round(x, 2)\<close> is the exact round-half-to-even at two decimals
  that Python applies to the value a float holds. Binary representation error is not
  modelled.
\<close>

subsection \<open>Strings: \<open>str.lower\<close> and the substring test \<open>w in text\<close>\<close>

text \<open>
  A headline is a list of characters. \<open>lower\<close> maps the ASCII capitals to small letters
  and leaves every other character alone; the keyword tables are ASCII and lower-case.
\<close>

definition lower_char :: "char \<Rightarrow> char" where
  "lower_char c =
     (case map_of (zip ''ABCDEFGHIJKLMNOPQRSTUVWXYZ'' ''abcdefghijklmnopqrstuvwxyz'') c of
        Some l \<Rightarrow> l
      | None \<Rightarrow> c)"

definition lower :: "string \<Rightarrow> string" where
  "lower text = map lower_char text"

fun starts_with :: "string \<Rightarrow> string \<Rightarrow> bool" where
  "starts_with text [] = True"
| "starts_with [] (w # ws) = False"
| "starts_with (c # cs) (w # ws) = (c = w \<and> starts_with cs ws)"

text \<open>\<open>contains text w\<close> is Python's \<open>w in text\<close>.\<close>

fun contains :: "string \<Rightarrow> string \<Rightarrow> bool" where
  "contains [] w = (w = [])"
| "contains (c # cs) w = (starts_with (c # cs) w \<or> contains cs w)"

text \<open>\<open>any(w in text for w in words)\<close>, and equally the inner loop
  \<open>for w in words: if w in text: return ...\<close>.\<close>

fun any_in :: "string list \<Rightarrow> string \<Rightarrow> bool" where
  "any_in [] text = False"
| "any_in (w # ws) text = (if contains text w then True else any_in ws text)"

text \<open>The loop over \<open>themes.items()\<close>: the first key, in insertion order, one of whose
  words occurs in the text.\<close>

fun first_theme :: "('k \<times> string list) list \<Rightarrow> string \<Rightarrow> 'k option" where
  "first_theme [] text = None"
| "first_theme ((key, words) # rest) text =
     (if any_in words text then Some key else first_theme rest text)"

subsection \<open>Static tables\<close>

definition macro_themes_lex :: "(string \<times> string list) list" where
  "macro_themes_lex =
     [(''interest_rate'', [''interest'', ''inflation'', ''cpi'', ''ppi'', ''fed'', ''ecb'',
                           ''rate hike'', ''yields'']),
      (''energy'', [''oil'', ''gas'', ''opec'', ''energy supply'', ''pipeline'', ''crude'']),
      (''tech'', [''ai'', ''technology'', ''chip'', ''semiconductor'', ''software'']),
      (''geopolitical'', [''conflict'', ''war'', ''border'', ''sanction'', ''missile'',
                          ''tension'']),
      (''fiscal'', [''stimulus'', ''government spending'', ''budget'', ''subsidy'']),
      (''currency'', [''forex'', ''currency'', ''yen'', ''yuan'', ''liquidity'',
                      ''dollar index'']),
      (''labor'', [''unemployment'', ''jobs'', ''wage'', ''labor market'']),
      (''crypto'', [''bitcoin'', ''crypto'', ''ethereum'', ''token'', ''blockchain'']),
      (''political_shock'', [''assassination'', ''prime minister'', ''president'',
                             ''resignation'', ''leader death''])]"

definition macro_themes_hor :: "(string \<times> string list) list" where
  "macro_themes_hor =
     [(''interest_rate'', [''interest'', ''inflation'', ''cpi'', ''ppi'', ''fed'', ''ecb'',
                           ''rate hike'', ''yields'']),
      (''energy'', [''oil'', ''gas'', ''opec'', ''energy supply'', ''pipeline'', ''crude'']),
      (''tech'', [''ai'', ''technology'', ''chip'', ''semiconductor'', ''software'']),
      (''geopolitical'', [''conflict'', ''war'', ''border'', ''sanction'', ''missile'',
                          ''tension'']),
      (''fiscal'', [''stimulus'', ''government spending'', ''budget'', ''subsidy'']),
      (''currency'', [''forex'', ''currency'', ''yen'', ''yuan'', ''dollar index'']),
      (''labor'', [''unemployment'', ''jobs'', ''wage'', ''labor market'']),
      (''crypto'', [''bitcoin'', ''crypto'', ''ethereum'', ''token'', ''blockchain'']),
      (''political_shock'', [''assassination'', ''prime minister'', ''president'',
                             ''resignation'', ''leader death''])]"

definition micro_themes :: "(string \<times> string list) list" where
  "micro_themes =
     [(''earnings'', [''earnings'', ''quarterly'', ''revenue'', ''profit'', ''guidance'']),
      (''company_specific'', [''launch'', ''ceo'', ''merger'', ''acquisition'', ''company'']),
      (''sector_only'', [''retail sales'', ''chip demand'', ''housing data''])]"

definition irrelevant_keywords :: "string list" where
  "irrelevant_keywords =
     [''accident'', ''celebrity'', ''movie'', ''festival'', ''sports'', ''award'',
      ''weather'', ''crime'']"

definition severity_weights_lex :: "(string \<times> int) list" where
  "severity_weights_lex =
     [(''crisis'', 30), (''war'', 30), (''sanction'', 25), (''default'', 30),
      (''surge'', 20), (''collapse'', 20), (''emergency'', 20),
      (''hike'', 15), (''cut'', 15), (''inflation'', 15),
      (''mild'', 5), (''slight'', 5)]"

definition severity_weights_hor :: "(string \<times> rat) list" where
  "severity_weights_hor =
     [(''crisis'', 3/2), (''war'', 3/2), (''sanction'', 13/10), (''default'', 3/2),
      (''surge'', 6/5), (''collapse'', 6/5), (''emergency'', 6/5),
      (''hike'', 11/10), (''cut'', 11/10), (''inflation'', 11/10),
      (''mild'', 1), (''slight'', 1)]"

subsection \<open>Theme classifier (keyword tiers)\<close>

text \<open>Both scripts return a pair of strings: the tier and the theme or a reason.\<close>

definition classify_news_lex :: "string \<Rightarrow> string \<times> string" where
  "classify_news_lex text =
     (let text = lower text in
      if any_in irrelevant_keywords text then (''irrelevant'', ''Not market-affecting'')
      else case first_theme micro_themes text of
             Some key \<Rightarrow> (''micro'', key)
           | None \<Rightarrow>
               (case first_theme macro_themes_lex text of
                  Some key \<Rightarrow> (''macro'', key)
                | None \<Rightarrow> (''irrelevant'', ''No macro/micro signals detected'')))"

definition classify_news_hor :: "string \<Rightarrow> string \<times> string" where
  "classify_news_hor text =
     (let text_lower = lower text in
      if any_in irrelevant_keywords text_lower then (''irrelevant'', ''Local / Irrelevant News'')
      else case first_theme micro_themes text_lower of
             Some key \<Rightarrow> (''micro'', key)
           | None \<Rightarrow>
               (case first_theme macro_themes_hor text_lower of
                  Some key \<Rightarrow> (''macro'', key)
                | None \<Rightarrow> (''irrelevant'', ''No macro/micro signals detected'')))"

subsection \<open>Cluster classifier of v0.1\<close>

definition cluster_keywords :: "(nat \<times> string list) list" where
  "cluster_keywords =
     [(0, [''inflation'', ''prices'', ''cpi'', ''pmi'']),
      (1, [''oil'', ''energy'', ''gas'', ''opec'']),
      (2, [''war'', ''conflict'', ''geopolitics'', ''sanctions'']),
      (3, [''tech'', ''ai'', ''chips'', ''innovation'']),
      (4, [''dollar'', ''currency'', ''forex'', ''fed'']),
      (5, [''recession'', ''slowdown'', ''unemployment'']),
      (6, [''crypto'', ''bitcoin'', ''blockchain'']),
      (7, [''rates'', ''hikes'', ''treasury'', ''yields''])]"

text \<open>
  \<open>simulate_macro_cluster\<close> falls back to \<open>np.random.randint(0, 8)\<close> when no keyword
  occurs. The value the generator hands out on this run is the argument \<open>draw\<close>
  (a number below 8); the function reads nothing else from outside.
\<close>

definition simulate_macro_cluster :: "nat \<Rightarrow> string \<Rightarrow> nat" where
  "simulate_macro_cluster draw text =
     (let text = lower text in
      case first_theme cluster_keywords text of
        Some cluster_id \<Rightarrow> cluster_id
      | None \<Rightarrow> draw)"

subsection \<open>Severity scorers\<close>

text \<open>The loop \<open>for word, pts in severity_weights.items(): if word in text: score += pts\<close>,
  with the running score as accumulator.\<close>

fun score_loop_lex :: "(string \<times> int) list \<Rightarrow> string \<Rightarrow> int \<Rightarrow> int" where
  "score_loop_lex [] text score = score"
| "score_loop_lex ((word, pts) # rest) text score =
     score_loop_lex rest text (if contains text word then score + pts else score)"

definition compute_impact_score_lex :: "string \<Rightarrow> int" where
  "compute_impact_score_lex text =
     (let text = lower text; score = score_loop_lex severity_weights_lex text 0
      in min score 100)"

fun score_loop_hor :: "(string \<times> rat) list \<Rightarrow> string \<Rightarrow> rat \<Rightarrow> rat" where
  "score_loop_hor [] text score = score"
| "score_loop_hor ((word, mult) # rest) text score =
     score_loop_hor rest text
       (if contains (lower text) word then score + 20 * (mult - 1 + 1) else score)"

definition compute_impact_score_hor :: "string \<Rightarrow> rat" where
  "compute_impact_score_hor text =
     (let score = score_loop_hor severity_weights_hor text 0
      in min (max score 20) 100)"

definition compute_severity :: "rat \<Rightarrow> rat \<Rightarrow> int \<Rightarrow> rat \<Rightarrow> rat" where
  "compute_severity primary_score secondary_score sentiment horizon_years =
     (let severity = primary_score * 100;
          severity = (if secondary_score > 0 then severity * (115/100) else severity);
          severity = (if sentiment < 0 then severity * (12/10) else severity);
          severity = (if horizon_years > 3 then severity * (75/100)
                      else if horizon_years < 1 then severity * (115/100)
                      else severity)
      in min 100 (max 20 severity))"

subsection \<open>Horizon gate\<close>

definition horizon_threshold_emb :: "rat \<Rightarrow> rat \<Rightarrow> bool" where
  "horizon_threshold_emb severity horizon_years =
     (if horizon_years \<le> 1 then severity \<ge> 20
      else if horizon_years \<le> 3 then severity \<ge> 40
      else severity \<ge> 70)"

definition horizon_threshold_hor :: "rat \<Rightarrow> rat \<Rightarrow> bool" where
  "horizon_threshold_hor event_score horizon_years =
     (if horizon_years \<le> 1 then event_score \<ge> 20
      else if horizon_years \<le> 3 then event_score \<ge> 40
      else event_score \<ge> 70)"

subsection \<open>Portfolios\<close>

text \<open>
  A portfolio is a Python \<open>dict\<close> from asset name to weight. Dictionaries keep insertion
  order, and the code iterates over them, so a portfolio is an association list.
\<close>

type_synonym weights = "(string \<times> rat) list"

datatype py_error = KeyError string | ZeroDivisionError | IndexError

text \<open>\<open>sum(new.values())\<close>\<close>

definition sum_values :: "weights \<Rightarrow> rat" where
  "sum_values new = sum_list (map snd new)"

text \<open>\<open>asset in new\<close>\<close>

definition has_key :: "weights \<Rightarrow> string \<Rightarrow> bool" where
  "has_key new asset = (map_of new asset \<noteq> None)"

text \<open>\<open>new[asset] += d\<close>: a missing key raises \<open>KeyError\<close>.\<close>

fun add_to :: "weights \<Rightarrow> string \<Rightarrow> rat \<Rightarrow> py_error + weights" where
  "add_to [] asset d = Inl (KeyError asset)"
| "add_to ((k, v) # rest) asset d =
     (if k = asset then Inr ((k, v + d) # rest)
      else case add_to rest asset d of
             Inl e \<Rightarrow> Inl e
           | Inr rest' \<Rightarrow> Inr ((k, v) # rest'))"

text \<open>\<open>round(x, 2)\<close>: Python rounds the value to the nearest multiple of 0.01, a tie going
  to the even neighbour.\<close>

definition round_half_even :: "rat \<Rightarrow> int" where
  "round_half_even x =
     (let f = \<lfloor>x\<rfloor>; d = x - of_int f
      in if d < 1/2 then f
         else if d > 1/2 then f + 1
         else if even f then f else f + 1)"

definition round2 :: "rat \<Rightarrow> rat" where
  "round2 x = of_int (round_half_even (x * 100)) / 100"

text \<open>
  The closing lines of every \<open>apply_rebalance\<close>:
  \<^verbatim>\<open>total = sum(new.values())\<close>, then \<^verbatim>\<open>for k in new: new[k] = round(new[k] / total * 100, 2)\<close>.
  The first division raises \<open>ZeroDivisionError\<close> when the total is zero; an empty
  dictionary never divides.
\<close>

definition renormalize :: "weights \<Rightarrow> py_error + weights" where
  "renormalize new =
     (let total = sum_values new
      in if new \<noteq> [] \<and> total = 0 then Inl ZeroDivisionError
         else Inr (map (\<lambda>(k, v). (k, round2 (v / total * 100))) new))"

subsection \<open>Rebalance rule tables\<close>

definition macro_rebalance_rules :: "(string \<times> (string \<times> rat) list) list" where
  "macro_rebalance_rules =
     [(''interest_rate'', [(''Equities'', -10), (''Bonds'', 10)]),
      (''energy'', [(''Commodities'', 15), (''Equities'', -5)]),
      (''tech'', [(''Equities'', 10)]),
      (''geopolitical'', [(''Bonds'', 10), (''Commodities'', 5), (''Equities'', -10)]),
      (''fiscal'', [(''Equities'', 10)]),
      (''currency'', [(''Bonds'', 5), (''Crypto'', -10)]),
      (''labor'', [(''Equities'', -5), (''Bonds'', 5)]),
      (''crypto'', [(''Crypto'', 15)]),
      (''political_shock'', [(''Bonds'', 10), (''Equities'', -10)])]"

definition rebalance_rules_emb :: "(string \<times> (string \<times> rat) list) list" where
  "rebalance_rules_emb =
     [(''interest_rates'', [(''Equities'', -10), (''Bonds'', 15)]),
      (''energy'', [(''Commodities'', 15)]),
      (''tech'', [(''Equities'', 12)]),
      (''geopolitical'', [(''Bonds'', 10), (''Commodities'', 8), (''Equities'', -10)]),
      (''fiscal'', [(''Equities'', 10)]),
      (''currency_fx'', [(''Crypto'', -10), (''Bonds'', 5)]),
      (''labor'', [(''Equities'', -5), (''Bonds'', 5)]),
      (''crypto'', [(''Crypto'', 15)]),
      (''political_shock'', [(''Bonds'', 12), (''Equities'', -12)]),
      (''commodities'', [(''Commodities'', 15)])]"

subsection \<open>Rebalance engine\<close>

text \<open>\<open>for asset, shift in rule.items(): new[asset] += shift * intensity\<close>
  (scripts \<open>_lex\<close> and \<open>_emb\<close>: no membership test, so a missing asset raises).\<close>

fun apply_shifts :: "weights \<Rightarrow> (string \<times> rat) list \<Rightarrow> rat \<Rightarrow> py_error + weights" where
  "apply_shifts new [] intensity = Inr new"
| "apply_shifts new ((asset, shift) # rest) intensity =
     (case add_to new asset (shift * intensity) of
        Inl e \<Rightarrow> Inl e
      | Inr new' \<Rightarrow> apply_shifts new' rest intensity)"

text \<open>The same loop with the guard \<open>if asset in new_weights\<close> (script \<open>_hor\<close>).\<close>

fun apply_changes :: "weights \<Rightarrow> (string \<times> rat) list \<Rightarrow> rat \<Rightarrow> py_error + weights" where
  "apply_changes new_weights [] intensity_factor = Inr new_weights"
| "apply_changes new_weights ((asset, change) # rest) intensity_factor =
     (if has_key new_weights asset
      then case add_to new_weights asset (change * intensity_factor) of
             Inl e \<Rightarrow> Inl e
           | Inr new' \<Rightarrow> apply_changes new' rest intensity_factor
      else apply_changes new_weights rest intensity_factor)"

definition apply_rebalance_lex :: "weights \<Rightarrow> string \<Rightarrow> rat \<Rightarrow> py_error + weights" where
  "apply_rebalance_lex base theme intensity_factor =
     (case map_of macro_rebalance_rules theme of
        None \<Rightarrow> Inr base
      | Some rule \<Rightarrow>
          (case apply_shifts base rule intensity_factor of
             Inl e \<Rightarrow> Inl e
           | Inr new \<Rightarrow> renormalize new))"

definition apply_rebalance_emb :: "weights \<Rightarrow> string \<Rightarrow> rat \<Rightarrow> py_error + weights" where
  "apply_rebalance_emb weights theme severity =
     (let intensity = severity / 100
      in case (case map_of rebalance_rules_emb theme of
                 None \<Rightarrow> Inr weights
               | Some rule \<Rightarrow> apply_shifts weights rule intensity) of
           Inl e \<Rightarrow> Inl e
         | Inr new \<Rightarrow> renormalize new)"

definition apply_rebalance_hor :: "weights \<Rightarrow> string \<Rightarrow> rat \<Rightarrow> py_error + weights" where
  "apply_rebalance_hor base_weights theme intensity_factor =
     (case map_of macro_rebalance_rules theme of
        None \<Rightarrow> Inr base_weights
      | Some rule \<Rightarrow>
          (case apply_changes base_weights rule intensity_factor of
             Inl e \<Rightarrow> Inl e
           | Inr new_weights \<Rightarrow> renormalize new_weights))"

subsection \<open>The scripts' analysis runs\<close>

text \<open>The five \<open>st.number_input(..., 0, 100, 20)\<close> fields give integers; the scripts build
  the dictionary in this order.\<close>

definition initial_weights :: "int \<Rightarrow> int \<Rightarrow> int \<Rightarrow> int \<Rightarrow> int \<Rightarrow> weights" where
  "initial_weights equity_w bond_w etf_w crypto_w cmdty_w =
     [(''Equities'', of_int equity_w), (''Bonds'', of_int bond_w), (''ETFs'', of_int etf_w),
      (''Crypto'', of_int crypto_w), (''Commodities'', of_int cmdty_w)]"

text \<open>How a run ends: one of the \<open>st.stop()\<close> exits, a suggested portfolio, or an
  exception. The button is taken as pressed.\<close>

datatype outcome =
    InvalidTotal | NoHeadline | NotRelevant | MicroEvent | BelowThreshold
  | Suggested weights | Raised py_error

definition analyze_lex :: "weights \<Rightarrow> string \<Rightarrow> outcome" where
  "analyze_lex weights headline =
     (if sum_values weights \<noteq> 100 then InvalidTotal
      else if headline = [] then NoHeadline
      else let (event_type, theme) = classify_news_lex headline;
               impact = compute_impact_score_lex headline
           in if event_type = ''irrelevant'' then NotRelevant
              else if event_type = ''micro'' then MicroEvent
              else if impact < 25 then BelowThreshold
              else let intensity_factor = of_int impact / 100
                   in case apply_rebalance_lex weights theme intensity_factor of
                        Inl e \<Rightarrow> Raised e
                      | Inr updated_port \<Rightarrow> Suggested updated_port)"

definition analyze_hor :: "weights \<Rightarrow> rat \<Rightarrow> string \<Rightarrow> outcome" where
  "analyze_hor weights horizon_years headline =
     (if sum_values weights \<noteq> 100 then InvalidTotal
      else if headline = [] then NoHeadline
      else let (event_type, theme) = classify_news_hor headline;
               impact_score = compute_impact_score_hor headline
           in if event_type = ''irrelevant'' then NotRelevant
              else if \<not> horizon_threshold_hor impact_score horizon_years then BelowThreshold
              else let intensity_factor = impact_score / 100
                   in case apply_rebalance_hor weights theme intensity_factor of
                        Inl e \<Rightarrow> Raised e
                      | Inr updated_portfolio \<Rightarrow> Suggested updated_portfolio)"

subsection \<open>Rebalance of v0.1 (sensitivity matrix)\<close>

text \<open>A row of the data frame.\<close>

record holding =
  Asset :: string
  Weight :: rat
  Allocation :: rat

definition sensitivity :: "(string \<times> int list) list" where
  "sensitivity =
     [(''SPY'',        [-1, -1, -1,  1, -1, -1,  0, -1]),
      (''IEF'',        [-1,  0,  1, -1,  1,  1,  0,  1]),
      (''BTC'',        [ 0, -1, -1,  1, -1, -1, -1, -1]),
      (''QQQ'',        [-1,  0, -1,  1, -1, -1,  0, -1]),
      (''SPY_Option'', [ 1, -1, -1,  1, -1, -1,  1, -1]),
      (''ES'',         [-1, -1, -1,  1, -1, -1,  0, -1]),
      (''GLD'',        [ 1,  1,  1, -1,  1,  1,  0,  1])]"

text \<open>The loop \<open>for i, row in df.iterrows()\<close>; \<open>sensitivity[asset][cluster_id]\<close> raises
  \<open>IndexError\<close> past the eight columns.\<close>

fun shift_rows :: "nat \<Rightarrow> holding list \<Rightarrow> py_error + holding list" where
  "shift_rows cluster_id [] = Inr []"
| "shift_rows cluster_id (row # rows) =
     (case (case map_of sensitivity (Asset row) of
              None \<Rightarrow> Inr row
            | Some directions \<Rightarrow>
                if cluster_id < length directions
                then Inr (row\<lparr>Weight := Weight row + of_int (directions ! cluster_id) * (3/100)\<rparr>)
                else Inl IndexError) of
        Inl e \<Rightarrow> Inl e
      | Inr row' \<Rightarrow>
          (case shift_rows cluster_id rows of
             Inl e \<Rightarrow> Inl e
           | Inr rows' \<Rightarrow> Inr (row' # rows')))"

text \<open>pandas divides a column by a zero sum without raising: every entry becomes NaN.
  \<open>NaNFrame\<close> stands for that frame.\<close>

datatype frame = Frame "holding list" | NaNFrame

definition generate_suggested_portfolio :: "rat \<Rightarrow> nat \<Rightarrow> holding list \<Rightarrow> py_error + frame" where
  "generate_suggested_portfolio capital cluster_id df =
     (case shift_rows cluster_id df of
        Inl e \<Rightarrow> Inl e
      | Inr df1 \<Rightarrow>
          (let df2 = map (\<lambda>row. row\<lparr>Weight := max (Weight row) 0\<rparr>) df1;
               total = sum_list (map Weight df2)
           in if df2 \<noteq> [] \<and> total = 0 then Inr NaNFrame
              else Inr (Frame (map (\<lambda>row. row\<lparr>Weight := Weight row / total,
                                              Allocation := Weight row / total * capital\<rparr>) df2))))"

subsection \<open>Weights written with two decimals\<close>

text \<open>A weight that is a whole number of hundredths, as every integer percentage is.\<close>

definition two_decimals :: "rat \<Rightarrow> bool" where
  "two_decimals v = (of_int \<lfloor>v * 100\<rfloor> = v * 100)"

section \<open>Properties\<close>

subsection \<open>Auxiliary facts: scores\<close>

lemma score_loop_lex_mono:
  "list_all (\<lambda>(w, p). 0 \<le> p) tbl \<Longrightarrow> acc \<le> score_loop_lex tbl text acc"
proof (induction tbl arbitrary: acc)
  case Nil
  then show ?case by simp
next
  case (Cons a tbl)
  obtain w p where a: "a = (w, p)" by (cases a)
  from Cons.prems a have p: "0 \<le> p" and rest: "list_all (\<lambda>(w, p). 0 \<le> p) tbl" by auto
  have "acc \<le> (if contains text w then acc + p else acc)" using p by simp
  also have "\<dots> \<le> score_loop_lex tbl text (if contains text w then acc + p else acc)"
    by (rule Cons.IH [OF rest])
  finally show ?case by (simp add: a)
qed

lemma compute_impact_score_lex_range:
  "0 \<le> compute_impact_score_lex text \<and> compute_impact_score_lex text \<le> 100"
proof -
  have "list_all (\<lambda>(w, p). 0 \<le> p) severity_weights_lex"
    by (simp add: severity_weights_lex_def)
  then have "0 \<le> score_loop_lex severity_weights_lex (lower text) 0"
    by (rule score_loop_lex_mono)
  then show ?thesis by (simp add: compute_impact_score_lex_def Let_def)
qed

lemma compute_impact_score_hor_range:
  "20 \<le> compute_impact_score_hor text \<and> compute_impact_score_hor text \<le> 100"
  by (simp add: compute_impact_score_hor_def Let_def)

lemma compute_severity_range:
  "20 \<le> compute_severity p s sentiment h \<and> compute_severity p s sentiment h \<le> 100"
  by (simp add: compute_severity_def Let_def)

lemma score_loop_hor_no_keyword:
  "\<not> any_in (map fst tbl) (lower text) \<Longrightarrow> score_loop_hor tbl text acc = acc"
  by (induction tbl arbitrary: acc) (auto split: if_splits)

subsection \<open>Auxiliary facts: rounding, dictionary updates, renormalisation\<close>

lemma round_half_even_error: "\<bar>of_int (round_half_even x) - x\<bar> \<le> 1/2"
  unfolding round_half_even_def Let_def by (auto simp: abs_if) linarith+

lemma round2_error: "\<bar>round2 x - x\<bar> \<le> 1/200"
proof -
  have "\<bar>of_int (round_half_even (x * 100)) - x * 100\<bar> \<le> 1/2"
    by (rule round_half_even_error)
  then show ?thesis
    unfolding round2_def by (simp add: abs_if field_simps split: if_splits)
qed

lemma round_half_even_of_int: "round_half_even (of_int n) = n"
  by (simp add: round_half_even_def Let_def)

lemma round2_two_decimals: "two_decimals v \<Longrightarrow> round2 v = v"
proof -
  assume "two_decimals v"
  then have eq: "v * 100 = of_int \<lfloor>v * 100\<rfloor>"
    unfolding two_decimals_def by (rule sym)
  have "round_half_even (v * 100) = \<lfloor>v * 100\<rfloor>"
    by (subst eq) (rule round_half_even_of_int)
  then have "round2 v = of_int \<lfloor>v * 100\<rfloor> / 100" by (simp add: round2_def)
  also have "\<dots> = v" using eq by simp
  finally show ?thesis .
qed

lemma add_to_sum: "add_to w k d = Inr w' \<Longrightarrow> sum_values w' = sum_values w + d"
  by (induction w arbitrary: w') (auto simp: sum_values_def split: if_splits sum.splits)

lemma add_to_length: "add_to w k d = Inr w' \<Longrightarrow> length w' = length w"
  by (induction w arbitrary: w') (auto split: if_splits sum.splits)

lemma add_to_zero: "has_key w k \<Longrightarrow> add_to w k 0 = Inr w"
  by (induction w) (auto simp: has_key_def split: if_splits sum.splits)

lemma add_to_has_key: "has_key w k \<Longrightarrow> \<exists>w'. add_to w k d = Inr w'"
  by (induction w) (auto simp: has_key_def split: if_splits sum.splits)

lemma apply_shifts_length: "apply_shifts w rule i = Inr w' \<Longrightarrow> length w' = length w"
  by (induction rule arbitrary: w) (auto split: sum.splits dest: add_to_length)

lemma apply_changes_length: "apply_changes w rule i = Inr w' \<Longrightarrow> length w' = length w"
  by (induction rule arbitrary: w) (auto split: sum.splits if_splits dest: add_to_length)

lemma apply_changes_total: "\<exists>w'. apply_changes w rule i = Inr w'"
proof (induction rule arbitrary: w)
  case Nil
  then show ?case by simp
next
  case (Cons a rule)
  obtain asset change where a: "a = (asset, change)" by (cases a)
  show ?case
  proof (cases "has_key w asset")
    case True
    then obtain w1 where "add_to w asset (change * i) = Inr w1"
      using add_to_has_key by blast
    then show ?thesis using Cons.IH [of w1] True by (simp add: a)
  next
    case False
    then show ?thesis using Cons.IH [of w] by (simp add: a)
  qed
qed

lemma apply_shifts_zero:
  "list_all (\<lambda>(asset, shift). has_key w asset) rule \<Longrightarrow> apply_shifts w rule 0 = Inr w"
  by (induction rule) (auto simp: add_to_zero)

lemma apply_changes_zero: "apply_changes w rule 0 = Inr w"
  by (induction rule) (auto simp: add_to_zero)

lemma sum_rounded_error:
  "\<bar>sum_list (map (\<lambda>(k, v). round2 (f v)) w) - sum_list (map (\<lambda>(k, v). f v) w)\<bar>
     \<le> of_nat (length w) / 200"
proof (induction w)
  case Nil
  then show ?case by simp
next
  case (Cons a w)
  obtain k v where a: "a = (k, v)" by (cases a)
  have "\<bar>round2 (f v) - f v\<bar> \<le> 1/200" by (rule round2_error)
  with Cons.IH show ?case by (simp add: a field_simps abs_if split: if_splits)
qed

lemma sum_scaled: "sum_list (map (\<lambda>(k, v). v / t * 100) w) = sum_values w / t * (100::rat)"
  by (induction w) (auto simp: sum_values_def add_divide_distrib distrib_right)

lemma renormalize_sum:
  assumes "renormalize new = Inr p" and "new \<noteq> []"
  shows "\<bar>sum_values p - 100\<bar> \<le> of_nat (length new) / 200"
proof -
  let ?t = "sum_values new"
  from assms have t: "?t \<noteq> 0" and p: "p = map (\<lambda>(k, v). (k, round2 (v / ?t * 100))) new"
    by (auto simp: renormalize_def Let_def split: if_splits)
  have "sum_values p = sum_list (map (\<lambda>(k, v). round2 (v / ?t * 100)) new)"
    unfolding p sum_values_def by (simp add: comp_def case_prod_unfold)
  moreover have "sum_list (map (\<lambda>(k, v). v / ?t * 100) new) = 100"
  proof -
    have "sum_list (map (\<lambda>(k, v). v / ?t * 100) new) = ?t / ?t * 100"
      by (rule sum_scaled)
    also have "\<dots> = 100" using t by simp
    finally show ?thesis .
  qed
  ultimately show ?thesis
    using sum_rounded_error [of "\<lambda>v. v / ?t * 100" new] by simp
qed

lemma renormalize_identity:
  assumes "sum_values w = 100" and "list_all (\<lambda>(k, v). two_decimals v) w"
  shows "renormalize w = Inr w"
proof -
  have "map (\<lambda>(k, v). (k, round2 (v / 100 * 100))) w = w"
    using assms(2) by (induction w) (auto simp: round2_two_decimals)
  then show ?thesis using assms(1) by (simp add: renormalize_def Let_def)
qed

lemma apply_rebalance_lex_sum:
  assumes "sum_values base = 100" and "apply_rebalance_lex base theme i = Inr p"
  shows "\<bar>sum_values p - 100\<bar> \<le> of_nat (length base) / 200"
proof (cases "map_of macro_rebalance_rules theme")
  case None
  with assms show ?thesis by (simp add: apply_rebalance_lex_def)
next
  case (Some rule)
  with assms(2) obtain new where new: "apply_shifts base rule i = Inr new"
    and p: "renormalize new = Inr p"
    by (auto simp: apply_rebalance_lex_def split: sum.splits)
  from new have len: "length new = length base" by (rule apply_shifts_length)
  from assms(1) have "base \<noteq> []" by (auto simp: sum_values_def)
  with len have "new \<noteq> []" by auto
  with p len show ?thesis using renormalize_sum [of new p] by simp
qed

lemma apply_rebalance_hor_sum:
  assumes "sum_values base = 100" and "apply_rebalance_hor base theme i = Inr p"
  shows "\<bar>sum_values p - 100\<bar> \<le> of_nat (length base) / 200"
proof (cases "map_of macro_rebalance_rules theme")
  case None
  with assms show ?thesis by (simp add: apply_rebalance_hor_def)
next
  case (Some rule)
  with assms(2) obtain new where new: "apply_changes base rule i = Inr new"
    and p: "renormalize new = Inr p"
    by (auto simp: apply_rebalance_hor_def split: sum.splits)
  from new have len: "length new = length base" by (rule apply_changes_length)
  from assms(1) have "base \<noteq> []" by (auto simp: sum_values_def)
  with len have "new \<noteq> []" by auto
  with p len show ?thesis using renormalize_sum [of new p] by simp
qed

lemma apply_rebalance_emb_sum:
  assumes "sum_values base = 100" and "apply_rebalance_emb base theme severity = Inr p"
  shows "\<bar>sum_values p - 100\<bar> \<le> of_nat (length base) / 200"
proof -
  from assms(2) obtain new where new: "length new = length base"
    and p: "renormalize new = Inr p"
    by (auto simp: apply_rebalance_emb_def Let_def split: sum.splits option.splits
          dest: apply_shifts_length)
  from assms(1) have "base \<noteq> []" by (auto simp: sum_values_def)
  with new have "new \<noteq> []" by auto
  with p new show ?thesis using renormalize_sum [of new p] by simp
qed

lemma renormalize_returns: "sum_values new \<noteq> 0 \<Longrightarrow> \<exists>p. renormalize new = Inr p"
  by (simp add: renormalize_def Let_def)

lemma round2_cents: "\<exists>z::int. round2 x = of_int z / 100"
  by (auto simp: round2_def)

lemma rounded_sum_cents:
  "\<exists>z::int. sum_list (map (\<lambda>(k, v). round2 (f v)) w) = of_int z / 100"
proof (induction w)
  case Nil
  have "(0::rat) = of_int 0 / 100" by simp
  then show ?case by auto
next
  case (Cons a w)
  obtain k v where a: "a = (k, v)" by (cases a)
  obtain z where z: "sum_list (map (\<lambda>(k, v). round2 (f v)) w) = of_int z / 100"
    using Cons.IH by blast
  obtain y where y: "round2 (f v) = of_int y / 100" using round2_cents by blast
  have "sum_list (map (\<lambda>(k, v). round2 (f v)) (a # w)) = of_int (y + z) / 100"
    by (simp add: a z y add_divide_distrib)
  then show ?case by blast
qed

lemma renormalize_cents:
  assumes "renormalize new = Inr p"
  shows "\<exists>z::int. sum_values p = of_int z / 100"
proof -
  let ?t = "sum_values new"
  from assms have p: "p = map (\<lambda>(k, v). (k, round2 (v / ?t * 100))) new"
    by (auto simp: renormalize_def Let_def split: if_splits)
  have "sum_values p = sum_list (map (\<lambda>(k, v). round2 (v / ?t * 100)) new)"
    unfolding p sum_values_def by (simp add: comp_def case_prod_unfold)
  then show ?thesis using rounded_sum_cents [of "\<lambda>v. v / ?t * 100" new] by simp
qed

lemma cents_within:
  fixes s :: rat
  assumes "s = of_int z / 100" and "\<bar>s - 100\<bar> \<le> 5 / 200"
  shows "\<bar>s - 100\<bar> \<le> 2 / 100"
proof -
  from assms have "\<bar>(of_int z :: rat) - 10000\<bar> \<le> 5 / 2"
    by (simp add: abs_if field_simps split: if_splits)
  then have "\<bar>(of_int (z - 10000) :: rat)\<bar> \<le> 5 / 2" by simp
  then have "(of_int \<bar>z - 10000\<bar> :: rat) \<le> 5 / 2" by (simp only: of_int_abs)
  then have "\<bar>z - 10000\<bar> \<le> 2" by linarith
  then have "(of_int \<bar>z - 10000\<bar> :: rat) \<le> 2" 
    by (metis of_int_le_iff of_int_numeral)
  then have "\<bar>(of_int z :: rat) - 10000\<bar> \<le> 2" by simp
  with assms(1) show ?thesis by (simp add: abs_if field_simps split: if_splits)
qed

lemma apply_rebalance_lex_cents:
  assumes "sum_values base = 100" and "apply_rebalance_lex base theme i = Inr p"
  shows "\<exists>z::int. sum_values p = of_int z / 100"
proof (cases "map_of macro_rebalance_rules theme")
  case None
  have "(100::rat) = of_int 10000 / 100" by simp
  with None assms show ?thesis by (auto simp: apply_rebalance_lex_def)
next
  case (Some rule)
  with assms(2) obtain new where "renormalize new = Inr p"
    by (auto simp: apply_rebalance_lex_def split: sum.splits)
  then show ?thesis by (rule renormalize_cents)
qed

lemma apply_rebalance_hor_cents:
  assumes "sum_values base = 100" and "apply_rebalance_hor base theme i = Inr p"
  shows "\<exists>z::int. sum_values p = of_int z / 100"
proof (cases "map_of macro_rebalance_rules theme")
  case None
  have "(100::rat) = of_int 10000 / 100" by simp
  with None assms show ?thesis by (auto simp: apply_rebalance_hor_def)
next
  case (Some rule)
  with assms(2) obtain new where "renormalize new = Inr p"
    by (auto simp: apply_rebalance_hor_def split: sum.splits)
  then show ?thesis by (rule renormalize_cents)
qed

lemma apply_rebalance_emb_cents:
  assumes "apply_rebalance_emb base theme severity = Inr p"
  shows "\<exists>z::int. sum_values p = of_int z / 100"
proof -
  from assms obtain new where "renormalize new = Inr p"
    by (auto simp: apply_rebalance_emb_def Let_def split: sum.splits)
  then show ?thesis by (rule renormalize_cents)
qed

lemma returned_sum_bounds:
  fixes p :: weights
  assumes "\<bar>sum_values p - 100\<bar> \<le> of_nat n / 200" and "\<exists>z::int. sum_values p = of_int z / 100"
  shows "\<bar>sum_values p - 100\<bar> \<le> of_nat n / 200
         \<and> (n = 5 \<longrightarrow> \<bar>sum_values p - 100\<bar> \<le> 2 / 100)"
proof (intro conjI impI)
  show "\<bar>sum_values p - 100\<bar> \<le> of_nat n / 200" by (rule assms(1))
next
  assume "n = 5"
  with assms(1) have "\<bar>sum_values p - 100\<bar> \<le> 5 / 200" by simp
  moreover obtain z :: int where "sum_values p = of_int z / 100" using assms(2) by blast
  ultimately show "\<bar>sum_values p - 100\<bar> \<le> 2 / 100" using cents_within by blast
qed


lemma two_decimals_of_int: "two_decimals (of_int n)"
proof -
  have "(of_int n :: rat) * 100 = of_int (n * 100)" by simp
  then show ?thesis unfolding two_decimals_def by (simp only: floor_of_int)
qed

lemma initial_weights_has_rule_assets:
  "map_of macro_rebalance_rules theme = Some rule
   \<Longrightarrow> list_all (\<lambda>(asset, shift). has_key (initial_weights e b t c m) asset) rule"
  by (auto simp: macro_rebalance_rules_def initial_weights_def has_key_def split: if_splits)

lemma apply_rebalance_hor_zero:
  assumes "sum_values P = 100" and "list_all (\<lambda>(k, v). two_decimals v) P"
  shows "apply_rebalance_hor P theme 0 = Inr P"
  using assms
  by (simp add: apply_rebalance_hor_def apply_changes_zero renormalize_identity
        split: option.splits)

lemma apply_rebalance_lex_zero:
  assumes "sum_values P = 100" and "list_all (\<lambda>(k, v). two_decimals v) P"
    and "case map_of macro_rebalance_rules theme of
           None \<Rightarrow> True
         | Some rule \<Rightarrow> list_all (\<lambda>(asset, shift). has_key P asset) rule"
  shows "apply_rebalance_lex P theme 0 = Inr P"
  using assms
  by (simp add: apply_rebalance_lex_def apply_shifts_zero renormalize_identity
        split: option.splits)

lemma apply_rebalance_emb_no_rule:
  "map_of rebalance_rules_emb theme = None
   \<Longrightarrow> apply_rebalance_emb base theme severity = renormalize base"
  by (simp add: apply_rebalance_emb_def)

lemma classify_news_lex_lower:
  "lower t1 = lower t2 \<Longrightarrow> classify_news_lex t1 = classify_news_lex t2"
  by (simp add: classify_news_lex_def)

lemma classify_news_hor_lower:
  "lower t1 = lower t2 \<Longrightarrow> classify_news_hor t1 = classify_news_hor t2"
  by (simp add: classify_news_hor_def)

subsection \<open>Auxiliary facts: the horizon-aware run\<close>

lemma first_theme_key: "first_theme tbl text = Some key \<Longrightarrow> key \<in> set (map fst tbl)"
  by (induction tbl) (auto split: if_splits)

lemma classify_news_hor_macro_theme:
  assumes "fst (classify_news_hor headline) = ''macro''"
  shows "snd (classify_news_hor headline) \<in> set (map fst macro_themes_hor)"
  using assms
  by (auto simp: classify_news_hor_def Let_def split: if_splits option.splits
        dest: first_theme_key)

lemma classify_news_hor_empty: "fst (classify_news_hor []) = ''irrelevant''"
  by code_simp

lemma macro_theme_has_rule:
  "theme \<in> set (map fst macro_themes_hor) \<Longrightarrow> \<exists>rule. map_of macro_rebalance_rules theme = Some rule"
  by (auto simp: macro_themes_hor_def macro_rebalance_rules_def)

lemma rule_negative_part:
  "map_of macro_rebalance_rules theme = Some rule
   \<Longrightarrow> -10 \<le> sum_list (map (\<lambda>(asset, change). min change 0) rule)"
  by (auto simp: macro_rebalance_rules_def split: if_splits)

lemma apply_changes_sum_lower:
  assumes "apply_changes w rule f = Inr new" and "0 \<le> f"
  shows "sum_values w + f * sum_list (map (\<lambda>(asset, change). min change 0) rule)
           \<le> sum_values new"
  using assms
proof (induction rule arbitrary: w)
  case Nil
  then show ?case by simp
next
  case (Cons a rule)
  obtain asset change where a: "a = (asset, change)" by (cases a)
  let ?neg = "sum_list (map (\<lambda>(asset, change). min change 0) rule)"
  have m: "f * min change 0 \<le> f * change" "f * min change 0 \<le> 0"
    using Cons.prems(2) by (auto simp: mult_left_mono mult_nonneg_nonpos)
  show ?case
  proof (cases "has_key w asset")
    case True
    with Cons.prems(1) a obtain w1 where w1: "add_to w asset (change * f) = Inr w1"
      and rest: "apply_changes w1 rule f = Inr new"
      by (auto split: sum.splits)
    from add_to_sum [OF w1] have "sum_values w1 = sum_values w + change * f" .
    moreover from Cons.IH [OF rest Cons.prems(2)]
    have "sum_values w1 + f * ?neg \<le> sum_values new" .
    ultimately show ?thesis using m by (simp add: a algebra_simps)
  next
    case False
    with Cons.prems(1) a have rest: "apply_changes w rule f = Inr new" by simp
    from Cons.IH [OF rest Cons.prems(2)]
    have "sum_values w + f * ?neg \<le> sum_values new" .
    then show ?thesis using m by (simp add: a algebra_simps)
  qed
qed

lemma apply_rebalance_hor_returns:
  assumes "sum_values w = 100" and "map_of macro_rebalance_rules theme = Some rule"
    and "0 \<le> f" and "f \<le> 1"
  shows "\<exists>p. apply_rebalance_hor w theme f = Inr p"
proof -
  obtain new where new: "apply_changes w rule f = Inr new"
    using apply_changes_total by blast
  let ?neg = "sum_list (map (\<lambda>(asset, change). min change 0) rule)"
  have "-10 \<le> ?neg" using assms(2) by (rule rule_negative_part)
  then have "f * (-10) \<le> f * ?neg" using assms(3) by (rule mult_left_mono)
  moreover have "sum_values w + f * ?neg \<le> sum_values new"
    using new assms(3) by (rule apply_changes_sum_lower)
  ultimately have "0 < sum_values new" using assms(1,4) by simp
  then obtain p where "renormalize new = Inr p" using renormalize_returns [of new] by auto
  with new assms(2) show ?thesis by (simp add: apply_rebalance_hor_def)
qed

lemma compute_impact_score_hor_no_keyword:
  "\<not> any_in (map fst severity_weights_hor) (lower headline)
   \<Longrightarrow> compute_impact_score_hor headline = 20"
  by (simp add: compute_impact_score_hor_def Let_def score_loop_hor_no_keyword)

lemma horizon_gate_short:
  "horizon_years \<le> 1 \<Longrightarrow> horizon_threshold_hor (compute_impact_score_hor headline) horizon_years"
  using compute_impact_score_hor_range [of headline] by (simp add: horizon_threshold_hor_def)

lemma analyze_hor_macro:
  assumes "horizon_years \<le> 1" and "fst (classify_news_hor headline) = ''macro''"
    and "sum_values w = 100"
  shows "\<exists>p rule. map_of macro_rebalance_rules (snd (classify_news_hor headline)) = Some rule
           \<and> analyze_hor w horizon_years headline = Suggested p"
proof -
  let ?theme = "snd (classify_news_hor headline)"
  let ?score = "compute_impact_score_hor headline"
  from assms(2) have ne: "headline \<noteq> []" using classify_news_hor_empty by auto
  from assms(2) obtain rule where rule: "map_of macro_rebalance_rules ?theme = Some rule"
    using classify_news_hor_macro_theme macro_theme_has_rule by blast
  have "0 \<le> ?score / 100" "?score / 100 \<le> 1"
    using compute_impact_score_hor_range [of headline] by simp_all
  with assms(3) rule obtain p where p: "apply_rebalance_hor w ?theme (?score / 100) = Inr p"
    using apply_rebalance_hor_returns by blast
  have gate: "horizon_threshold_hor ?score horizon_years"
    using assms(1) by (rule horizon_gate_short)
  have "analyze_hor w horizon_years headline = Suggested p"
    using assms(2,3) ne gate p
    by (simp add: analyze_hor_def Let_def case_prod_unfold)
  with rule show ?thesis by blast
qed

subsection \<open>Auxiliary facts: the v0.1 rebalance clips at zero\<close>

lemma clipped_sum_nonneg: "0 \<le> sum_list (map (\<lambda>row. max (Weight row) 0) df)"
  by (induction df) auto

lemma generate_suggested_portfolio_nonneg:
  assumes "generate_suggested_portfolio capital cluster_id df = Inr (Frame out)"
  shows "list_all (\<lambda>row. 0 \<le> Weight row) out"
proof -
  from assms obtain df1 where out: "out =
      (let df2 = map (\<lambda>row. row\<lparr>Weight := max (Weight row) 0\<rparr>) df1;
           total = sum_list (map Weight df2)
       in map (\<lambda>row. row\<lparr>Weight := Weight row / total,
                          Allocation := Weight row / total * capital\<rparr>) df2)"
    by (auto simp: generate_suggested_portfolio_def Let_def split: sum.splits if_splits)
  have "0 \<le> sum_list (map Weight (map (\<lambda>row. row\<lparr>Weight := max (Weight row) 0\<rparr>) df1))"
    using clipped_sum_nonneg [of df1] by (simp add: comp_def)
  then show ?thesis unfolding out Let_def
    by (simp add: list_all_iff comp_def)
qed

subsection \<open>Horizon gate brackets\<close>

text \<open>
  C4. For every severity \<open>s\<close> and horizon \<open>h\<close> the horizon gate returns true exactly when
  \<open>h \<le> 1\<close> and \<open>s \<ge> 20\<close>, or \<open>1 < h \<le> 3\<close> and \<open>s \<ge> 40\<close>, or \<open>h > 3\<close> and \<open>s \<ge> 70\<close>; severity
  20 at horizon 1.0 passes, 19.99 at 1.0 fails, 40 at 2.0 passes and 69.99 at 5.0 fails.
  Both copies of the gate (the embedding script's and the horizon-aware keyword script's)
  are covered.
\<close>

theorem horizon_threshold_brackets:
  "horizon_threshold_emb s h =
     (h \<le> 1 \<and> s \<ge> 20 \<or> 1 < h \<and> h \<le> 3 \<and> s \<ge> 40 \<or> h > 3 \<and> s \<ge> 70)
   \<and> horizon_threshold_hor s h =
     (h \<le> 1 \<and> s \<ge> 20 \<or> 1 < h \<and> h \<le> 3 \<and> s \<ge> 40 \<or> h > 3 \<and> s \<ge> 70)
   \<and> horizon_threshold_emb 20 1 \<and> horizon_threshold_hor 20 1
   \<and> \<not> horizon_threshold_emb (1999/100) 1 \<and> \<not> horizon_threshold_hor (1999/100) 1
   \<and> horizon_threshold_emb 40 2 \<and> horizon_threshold_hor 40 2
   \<and> \<not> horizon_threshold_emb (6999/100) 5 \<and> \<not> horizon_threshold_hor (6999/100) 5"
  unfolding horizon_threshold_emb_def horizon_threshold_hor_def by auto

subsection \<open>Classifier precedence\<close>

lemma any_in_irrelevant_lex:
  "any_in irrelevant_keywords (lower text) \<Longrightarrow> fst (classify_news_lex text) = ''irrelevant''"
  by (simp add: classify_news_lex_def Let_def)

lemma any_in_irrelevant_hor:
  "any_in irrelevant_keywords (lower text) \<Longrightarrow> fst (classify_news_hor text) = ''irrelevant''"
  by (simp add: classify_news_hor_def Let_def)

text \<open>
  C8. A headline whose lower-cased text contains an irrelevant keyword is classified
  \<open>irrelevant\<close> by both keyword classifiers, whatever else it contains; in particular when
  it also contains a macro-theme keyword, since the irrelevant check runs before the
  micro and macro checks. The witness is the spec's headline, which holds \<open>celebrity\<close>
  and the macro keyword \<open>fed\<close>.
\<close>

theorem classify_news_irrelevant_precedence:
  assumes "any_in irrelevant_keywords (lower text)"
    and "any_in (concat (map snd macro_themes_lex)) (lower text)
         \<or> any_in (concat (map snd macro_themes_hor)) (lower text)"
  shows "fst (classify_news_lex text) = ''irrelevant''
         \<and> fst (classify_news_hor text) = ''irrelevant''"
  using assms(1) any_in_irrelevant_lex any_in_irrelevant_hor by simp

theorem classify_news_irrelevant_precedence_witness:
  "any_in irrelevant_keywords (lower ''Fed hikes rates amid celebrity gossip'')
   \<and> any_in (concat (map snd macro_themes_lex)) (lower ''Fed hikes rates amid celebrity gossip'')
   \<and> any_in (concat (map snd macro_themes_hor)) (lower ''Fed hikes rates amid celebrity gossip'')
   \<and> fst (classify_news_lex ''Fed hikes rates amid celebrity gossip'') = ''irrelevant''
   \<and> fst (classify_news_hor ''Fed hikes rates amid celebrity gossip'') = ''irrelevant''"
proof -
  have irr: "any_in irrelevant_keywords (lower ''Fed hikes rates amid celebrity gossip'')"
    by code_simp
  have mac: "any_in (concat (map snd macro_themes_lex))
               (lower ''Fed hikes rates amid celebrity gossip'')"
    by code_simp
  have mac': "any_in (concat (map snd macro_themes_hor))
               (lower ''Fed hikes rates amid celebrity gossip'')"
    by code_simp
  from classify_news_irrelevant_precedence [OF irr disjI1 [OF mac]] irr mac mac'
  show ?thesis by simp
qed

subsection \<open>Severity is bounded\<close>

text \<open>
  C7. Every severity scorer returns a value inside its declared range, however many
  keywords accumulate: the v2.1 keyword scorer in \<open>[0, 100]\<close>, the floor-20 keyword scorer
  in \<open>[20, 100]\<close>, and the similarity scorer in \<open>[20, 100]\<close> for every similarity score,
  sentiment and horizon.
\<close>

theorem severity_always_in_range:
  "0 \<le> compute_impact_score_lex headline \<and> compute_impact_score_lex headline \<le> 100
   \<and> 20 \<le> compute_impact_score_hor headline \<and> compute_impact_score_hor headline \<le> 100
   \<and> 20 \<le> compute_severity primary_score secondary_score sentiment horizon_years
   \<and> compute_severity primary_score secondary_score sentiment horizon_years \<le> 100"
  using compute_impact_score_lex_range [of headline]
    compute_impact_score_hor_range [of headline]
    compute_severity_range [of primary_score secondary_score sentiment horizon_years]
  by simp

subsection \<open>Sum of the rebalanced weights\<close>

text \<open>
  C1, as amended. For a portfolio whose weights sum to 100, the portfolio returned by
  \<open>apply_rebalance\<close> (each of the three scripts) sums to 100 within 0.005 per asset:
  each weight is rounded to two decimals on its own and nothing redistributes the
  residue. For the five-asset portfolios of the scripts the bound is 0.025, and 0.02 in
  effect, since every returned weight is a whole number of hundredths. The operation does
  return a portfolio whenever the theme has a rule, the rule's updates succeed and the
  post-rule total is positive. The stated tolerance of 0.01 does not hold: the
  counterexample below is a run of the v2.1 script (weights 10/10/10/10/60, theme
  \<open>energy\<close>, impact 25) whose result sums to 100.02.
\<close>

theorem rebalance_sum_within_rounding:
  assumes "sum_values base = 100"
  shows "(\<forall>p. apply_rebalance_lex base theme i = Inr p
              \<or> apply_rebalance_emb base theme severity = Inr p
              \<or> apply_rebalance_hor base theme i = Inr p
            \<longrightarrow> \<bar>sum_values p - 100\<bar> \<le> of_nat (length base) / 200
                \<and> (length base = 5 \<longrightarrow> \<bar>sum_values p - 100\<bar> \<le> 2 / 100))
       \<and> (\<forall>rule new. map_of macro_rebalance_rules theme = Some rule
            \<and> apply_shifts base rule i = Inr new \<and> 0 < sum_values new
            \<longrightarrow> (\<exists>p. apply_rebalance_lex base theme i = Inr p))
       \<and> (\<forall>rule new. map_of rebalance_rules_emb theme = Some rule
            \<and> apply_shifts base rule (severity / 100) = Inr new \<and> 0 < sum_values new
            \<longrightarrow> (\<exists>p. apply_rebalance_emb base theme severity = Inr p))
       \<and> (\<forall>rule new. map_of macro_rebalance_rules theme = Some rule
            \<and> apply_changes base rule i = Inr new \<and> 0 < sum_values new
            \<longrightarrow> (\<exists>p. apply_rebalance_hor base theme i = Inr p))"
proof -
  have bound: "\<bar>sum_values p - 100\<bar> \<le> of_nat (length base) / 200
               \<and> (length base = 5 \<longrightarrow> \<bar>sum_values p - 100\<bar> \<le> 2 / 100)"
    if ret: "apply_rebalance_lex base theme i = Inr p
               \<or> apply_rebalance_emb base theme severity = Inr p
               \<or> apply_rebalance_hor base theme i = Inr p" for p
  proof -
    from ret have "\<bar>sum_values p - 100\<bar> \<le> of_nat (length base) / 200
               \<and> (\<exists>z::int. sum_values p = of_int z / 100)"
    proof (elim disjE)
      assume "apply_rebalance_lex base theme i = Inr p"
      with assms show ?thesis
        using apply_rebalance_lex_sum apply_rebalance_lex_cents by simp
    next
      assume "apply_rebalance_emb base theme severity = Inr p"
      with assms show ?thesis
        using apply_rebalance_emb_sum apply_rebalance_emb_cents by simp
    next
      assume "apply_rebalance_hor base theme i = Inr p"
      with assms show ?thesis
        using apply_rebalance_hor_sum apply_rebalance_hor_cents by simp
    qed
    then show ?thesis by (intro returned_sum_bounds) simp_all
  qed
  have lex: "\<exists>p. apply_rebalance_lex base theme i = Inr p"
    if "map_of macro_rebalance_rules theme = Some rule
          \<and> apply_shifts base rule i = Inr new \<and> 0 < sum_values new" for rule new
    using that renormalize_returns [of new] by (simp add: apply_rebalance_lex_def)
  have emb: "\<exists>p. apply_rebalance_emb base theme severity = Inr p"
    if "map_of rebalance_rules_emb theme = Some rule
          \<and> apply_shifts base rule (severity / 100) = Inr new \<and> 0 < sum_values new"
    for rule new
    using that renormalize_returns [of new] by (simp add: apply_rebalance_emb_def)
  have hor: "\<exists>p. apply_rebalance_hor base theme i = Inr p"
    if "map_of macro_rebalance_rules theme = Some rule
          \<and> apply_changes base rule i = Inr new \<and> 0 < sum_values new" for rule new
    using that renormalize_returns [of new] by (simp add: apply_rebalance_hor_def)
  from bound lex emb hor show ?thesis by blast
qed

theorem rebalance_sum_within_rounding_witness:
  "sum_values (initial_weights 10 10 10 10 60) = 100
   \<and> apply_rebalance_lex (initial_weights 10 10 10 10 60) ''energy'' (1/4)
       = Inr [(''Equities'', 854/100), (''Bonds'', 976/100), (''ETFs'', 976/100),
              (''Crypto'', 976/100), (''Commodities'', 6220/100)]
   \<and> \<bar>sum_values [(''Equities'', 854/100), (''Bonds'', 976/100), (''ETFs'', 976/100),
                   (''Crypto'', 976/100), (''Commodities'', 6220/100)] - 100\<bar> \<le> 2 / 100
   \<and> (\<exists>p. apply_rebalance_hor (initial_weights 10 10 10 10 60) ''energy'' (1/4) = Inr p)"
proof -
  let ?base = "initial_weights 10 10 10 10 60"
  let ?out = "[(''Equities'', 854/100), (''Bonds'', 976/100), (''ETFs'', 976/100),
               (''Crypto'', 976/100), (''Commodities'', 6220/100)] :: weights"
  let ?new = "[(''Equities'', 35/4), (''Bonds'', 10), (''ETFs'', 10), (''Crypto'', 10),
               (''Commodities'', 255/4)] :: weights"
  have sum: "sum_values ?base = 100" by code_simp
  have out: "apply_rebalance_lex ?base ''energy'' (1/4) = Inr ?out" by code_simp
  have len: "length ?base = 5" by code_simp
  have rule: "map_of macro_rebalance_rules ''energy'' = Some [(''Commodities'', 15), (''Equities'', -5)]"
    by code_simp
  have new: "apply_changes ?base [(''Commodities'', 15), (''Equities'', -5)] (1/4) = Inr ?new"
    by code_simp
  have pos: "0 < sum_values ?new" by code_simp
  note inst = rebalance_sum_within_rounding [OF sum, of "''energy''" "1/4" 25]
  from inst out len have "\<bar>sum_values ?out - 100\<bar> \<le> 2 / 100" by blast
  moreover from inst rule new pos
  have "\<exists>p. apply_rebalance_hor ?base ''energy'' (1/4) = Inr p" by blast
  ultimately show ?thesis using sum out by blast
qed

theorem rebalance_sum_tolerance_counterexample:
  "sum_values (initial_weights 10 10 10 10 60) = 100
   \<and> apply_shifts (initial_weights 10 10 10 10 60) [(''Commodities'', 15), (''Equities'', -5)] (1/4)
       = Inr [(''Equities'', 35/4), (''Bonds'', 10), (''ETFs'', 10), (''Crypto'', 10),
              (''Commodities'', 255/4)]
   \<and> 0 < sum_values [(''Equities'', 35/4), (''Bonds'', 10), (''ETFs'', 10), (''Crypto'', 10),
                      (''Commodities'', 255/4)]
   \<and> apply_rebalance_lex (initial_weights 10 10 10 10 60) ''energy'' (1/4)
       = Inr [(''Equities'', 854/100), (''Bonds'', 976/100), (''ETFs'', 976/100),
              (''Crypto'', 976/100), (''Commodities'', 6220/100)]
   \<and> sum_values [(''Equities'', 854/100), (''Bonds'', 976/100), (''ETFs'', 976/100),
                  (''Crypto'', 976/100), (''Commodities'', 6220/100)] = 10002 / 100
   \<and> \<not> \<bar>sum_values [(''Equities'', 854/100), (''Bonds'', 976/100), (''ETFs'', 976/100),
                     (''Crypto'', 976/100), (''Commodities'', 6220/100)] - 100\<bar> \<le> 1 / 100"
  by code_simp

subsection \<open>Zero intensity\<close>

text \<open>
  C6, as amended. For a portfolio whose weights sum to 100 and are each written with at
  most two decimals (every integer percentage is), rebalancing with intensity 0 returns
  the portfolio unchanged: in the horizon-aware script for every theme, and in the v2.1
  script for every theme whose rule names only assets the portfolio holds (any other
  raises \<open>KeyError\<close>), which is the case for every portfolio the form builds. A weight
  with more decimals comes back rounded, so the claim fails for such a portfolio: the
  counterexample has weights 0.125 and 99.875.
\<close>

theorem zero_intensity_is_noop:
  assumes "sum_values P = 100" and "list_all (\<lambda>(k, v). two_decimals v) P"
  shows "apply_rebalance_hor P theme 0 = Inr P
       \<and> ((case map_of macro_rebalance_rules theme of
              None \<Rightarrow> True
            | Some rule \<Rightarrow> list_all (\<lambda>(asset, shift). has_key P asset) rule)
           \<longrightarrow> apply_rebalance_lex P theme 0 = Inr P)
       \<and> (P = initial_weights e b t c m \<longrightarrow> apply_rebalance_lex P theme 0 = Inr P)"
proof (intro conjI impI)
  show "apply_rebalance_hor P theme 0 = Inr P"
    using assms by (rule apply_rebalance_hor_zero)
next
  assume "case map_of macro_rebalance_rules theme of
            None \<Rightarrow> True
          | Some rule \<Rightarrow> list_all (\<lambda>(asset, shift). has_key P asset) rule"
  with assms show "apply_rebalance_lex P theme 0 = Inr P"
    by (rule apply_rebalance_lex_zero)
next
  assume P: "P = initial_weights e b t c m"
  have "case map_of macro_rebalance_rules theme of
            None \<Rightarrow> True
          | Some rule \<Rightarrow> list_all (\<lambda>(asset, shift). has_key P asset) rule"
    unfolding P by (simp add: initial_weights_has_rule_assets split: option.splits)
  with assms show "apply_rebalance_lex P theme 0 = Inr P"
    by (rule apply_rebalance_lex_zero)
qed

theorem zero_intensity_is_noop_witness:
  "sum_values (initial_weights 20 20 20 20 20) = 100
   \<and> list_all (\<lambda>(k, v). two_decimals v) (initial_weights 20 20 20 20 20)
   \<and> apply_rebalance_hor (initial_weights 20 20 20 20 20) ''energy'' 0
       = Inr (initial_weights 20 20 20 20 20)
   \<and> apply_rebalance_lex (initial_weights 20 20 20 20 20) ''energy'' 0
       = Inr (initial_weights 20 20 20 20 20)"
proof -
  have s: "sum_values (initial_weights 20 20 20 20 20) = 100" by code_simp
  have d: "list_all (\<lambda>(k, v). two_decimals v) (initial_weights 20 20 20 20 20)"
    by code_simp
  from zero_intensity_is_noop [OF s d, of "''energy''" 20 20 20 20 20] s d
  show ?thesis by simp
qed

theorem zero_intensity_counterexample:
  "sum_values [(''Equities'', 1/8), (''Bonds'', 799/8), (''ETFs'', 0), (''Crypto'', 0),
               (''Commodities'', 0)] = 100
   \<and> apply_rebalance_lex [(''Equities'', 1/8), (''Bonds'', 799/8), (''ETFs'', 0),
                           (''Crypto'', 0), (''Commodities'', 0)] ''tech'' 0
       = Inr [(''Equities'', 12/100), (''Bonds'', 9988/100), (''ETFs'', 0), (''Crypto'', 0),
              (''Commodities'', 0)]
   \<and> apply_rebalance_lex [(''Equities'', 1/8), (''Bonds'', 799/8), (''ETFs'', 0),
                           (''Crypto'', 0), (''Commodities'', 0)] ''tech'' 0
       \<noteq> Inr [(''Equities'', 1/8), (''Bonds'', 799/8), (''ETFs'', 0), (''Crypto'', 0),
               (''Commodities'', 0)]
   \<and> apply_rebalance_hor [(''Equities'', 1/8), (''Bonds'', 799/8), (''ETFs'', 0),
                           (''Crypto'', 0), (''Commodities'', 0)] ''tech'' 0
       \<noteq> Inr [(''Equities'', 1/8), (''Bonds'', 799/8), (''ETFs'', 0), (''Crypto'', 0),
               (''Commodities'', 0)]"
  by code_simp

subsection \<open>A theme without a rule\<close>

text \<open>
  C9, as amended. When the theme has no entry in the rule table, the v2.1 script and the
  horizon-aware script return the input portfolio as it is: no delta, no renormalisation,
  no rounding. The embedding script applies no delta either, but it has no early return:
  it still divides every weight by the total, multiplies by 100 and rounds to two decimals
  (and raises \<open>ZeroDivisionError\<close> on a non-empty portfolio whose total is zero). Its result
  equals the input when the weights sum to 100 and have at most two decimals. The
  counterexample is the embedding script on weights 0.125 and 99.875, and on 30 and 20.
\<close>

theorem theme_without_rule:
  "(map_of macro_rebalance_rules theme = None
      \<longrightarrow> apply_rebalance_lex base theme i = Inr base
          \<and> apply_rebalance_hor base theme i = Inr base)
   \<and> (map_of rebalance_rules_emb theme = None
      \<longrightarrow> apply_rebalance_emb base theme severity =
            (if base \<noteq> [] \<and> sum_values base = 0 then Inl ZeroDivisionError
             else Inr (map (\<lambda>(k, v). (k, round2 (v / sum_values base * 100))) base)))
   \<and> (map_of rebalance_rules_emb theme = None \<and> sum_values base = 100
        \<and> list_all (\<lambda>(k, v). two_decimals v) base
      \<longrightarrow> apply_rebalance_emb base theme severity = Inr base)"
proof (intro conjI impI)
  assume "map_of macro_rebalance_rules theme = None"
  then show "apply_rebalance_lex base theme i = Inr base"
    by (simp add: apply_rebalance_lex_def)
next
  assume "map_of macro_rebalance_rules theme = None"
  then show "apply_rebalance_hor base theme i = Inr base"
    by (simp add: apply_rebalance_hor_def)
next
  assume "map_of rebalance_rules_emb theme = None"
  then show "apply_rebalance_emb base theme severity =
            (if base \<noteq> [] \<and> sum_values base = 0 then Inl ZeroDivisionError
             else Inr (map (\<lambda>(k, v). (k, round2 (v / sum_values base * 100))) base))"
    by (simp add: apply_rebalance_emb_no_rule renormalize_def Let_def)
next
  assume "map_of rebalance_rules_emb theme = None \<and> sum_values base = 100
        \<and> list_all (\<lambda>(k, v). two_decimals v) base"
  then show "apply_rebalance_emb base theme severity = Inr base"
    by (simp add: apply_rebalance_emb_no_rule renormalize_identity)
qed

theorem theme_without_rule_witness:
  "map_of macro_rebalance_rules ''sports'' = None
   \<and> map_of rebalance_rules_emb ''sports'' = None
   \<and> sum_values (initial_weights 20 20 20 20 20) = 100
   \<and> list_all (\<lambda>(k, v). two_decimals v) (initial_weights 20 20 20 20 20)
   \<and> apply_rebalance_lex (initial_weights 20 20 20 20 20) ''sports'' (3/10)
       = Inr (initial_weights 20 20 20 20 20)
   \<and> apply_rebalance_hor (initial_weights 20 20 20 20 20) ''sports'' (3/10)
       = Inr (initial_weights 20 20 20 20 20)
   \<and> apply_rebalance_emb (initial_weights 20 20 20 20 20) ''sports'' 30
       = Inr (initial_weights 20 20 20 20 20)"
proof -
  have a: "map_of macro_rebalance_rules ''sports'' = None" by code_simp
  have b: "map_of rebalance_rules_emb ''sports'' = None" by code_simp
  have s: "sum_values (initial_weights 20 20 20 20 20) = 100" by code_simp
  have d: "list_all (\<lambda>(k, v). two_decimals v) (initial_weights 20 20 20 20 20)"
    by code_simp
  note inst = theme_without_rule [of "''sports''" "initial_weights 20 20 20 20 20" "3/10" 30]
  from inst a have "apply_rebalance_lex (initial_weights 20 20 20 20 20) ''sports'' (3/10)
       = Inr (initial_weights 20 20 20 20 20)
   \<and> apply_rebalance_hor (initial_weights 20 20 20 20 20) ''sports'' (3/10)
       = Inr (initial_weights 20 20 20 20 20)" by blast
  moreover from inst b s d
  have "apply_rebalance_emb (initial_weights 20 20 20 20 20) ''sports'' 30
       = Inr (initial_weights 20 20 20 20 20)" by blast
  ultimately show ?thesis using a b s d by blast
qed

theorem theme_without_rule_counterexample:
  "map_of rebalance_rules_emb ''sports'' = None
   \<and> sum_values [(''Equities'', 1/8), (''Bonds'', 799/8), (''ETFs'', 0), (''Crypto'', 0),
                  (''Commodities'', 0)] = 100
   \<and> apply_rebalance_emb [(''Equities'', 1/8), (''Bonds'', 799/8), (''ETFs'', 0),
                           (''Crypto'', 0), (''Commodities'', 0)] ''sports'' 50
       = Inr [(''Equities'', 12/100), (''Bonds'', 9988/100), (''ETFs'', 0), (''Crypto'', 0),
              (''Commodities'', 0)]
   \<and> apply_rebalance_emb [(''Equities'', 1/8), (''Bonds'', 799/8), (''ETFs'', 0),
                           (''Crypto'', 0), (''Commodities'', 0)] ''sports'' 50
       \<noteq> Inr [(''Equities'', 1/8), (''Bonds'', 799/8), (''ETFs'', 0), (''Crypto'', 0),
               (''Commodities'', 0)]
   \<and> apply_rebalance_emb [(''Equities'', 30), (''Bonds'', 20)] ''sports'' 50
       = Inr [(''Equities'', 60), (''Bonds'', 40)]"
  by code_simp

subsection \<open>A zero or negative total\<close>




subsection \<open>Determinism of the keyword classifiers\<close>

text \<open>
  C5, as amended. The tiered keyword classifier \<open>classify_news\<close> (both copies) reads
  nothing but the headline and the static tables, and its result depends on the headline
  only through its lower-cased text. The cluster classifier \<open>simulate_macro_cluster\<close> of
  v0.1 returns the same cluster on every run only when the lower-cased headline contains
  a cluster keyword; when it contains none, the result is the number the random generator
  draws on that run. The counterexample is a headline without any keyword and two runs
  with different draws.
\<close>

theorem classifier_determinism:
  "(first_theme cluster_keywords (lower headline) \<noteq> None
      \<longrightarrow> simulate_macro_cluster draw1 headline = simulate_macro_cluster draw2 headline)
   \<and> (first_theme cluster_keywords (lower headline) = None
      \<longrightarrow> simulate_macro_cluster draw1 headline = draw1)
   \<and> (lower headline = lower headline'
      \<longrightarrow> classify_news_lex headline = classify_news_lex headline'
          \<and> classify_news_hor headline = classify_news_hor headline')"
proof (intro conjI impI)
  assume "first_theme cluster_keywords (lower headline) \<noteq> None"
  then show "simulate_macro_cluster draw1 headline = simulate_macro_cluster draw2 headline"
    by (auto simp: simulate_macro_cluster_def Let_def)
next
  assume "first_theme cluster_keywords (lower headline) = None"
  then show "simulate_macro_cluster draw1 headline = draw1"
    by (simp add: simulate_macro_cluster_def Let_def)
next
  assume "lower headline = lower headline'"
  then show "classify_news_lex headline = classify_news_lex headline'"
    by (rule classify_news_lex_lower)
next
  assume "lower headline = lower headline'"
  then show "classify_news_hor headline = classify_news_hor headline'"
    by (rule classify_news_hor_lower)
qed

theorem classifier_determinism_witness:
  "first_theme cluster_keywords (lower ''Oil prices surge'') \<noteq> None
   \<and> simulate_macro_cluster 3 ''Oil prices surge'' = simulate_macro_cluster 5 ''Oil prices surge''
   \<and> first_theme cluster_keywords (lower ''Quiet day'') = None
   \<and> simulate_macro_cluster 3 ''Quiet day'' = 3
   \<and> lower ''FED'' = lower ''fed''
   \<and> classify_news_lex ''FED'' = classify_news_lex ''fed''
   \<and> classify_news_hor ''FED'' = classify_news_hor ''fed''"
proof -
  have a: "first_theme cluster_keywords (lower ''Oil prices surge'') \<noteq> None" by code_simp
  have b: "first_theme cluster_keywords (lower ''Quiet day'') = None" by code_simp
  have c: "lower ''FED'' = lower ''fed''" by code_simp
  from classifier_determinism [of "''Oil prices surge''" 3 5] a
  have 1: "simulate_macro_cluster 3 ''Oil prices surge'' = simulate_macro_cluster 5 ''Oil prices surge''"
    by blast
  from classifier_determinism [of "''Quiet day''" 3] b
  have 2: "simulate_macro_cluster 3 ''Quiet day'' = 3" by blast
  from classifier_determinism [of "''FED''" _ _ "''fed''"] c
  have 3: "classify_news_lex ''FED'' = classify_news_lex ''fed''
           \<and> classify_news_hor ''FED'' = classify_news_hor ''fed''" by blast
  from a b c 1 2 3 show ?thesis by blast
qed

theorem classifier_determinism_counterexample:
  "simulate_macro_cluster 3 ''Quiet day'' = 3
   \<and> simulate_macro_cluster 5 ''Quiet day'' = 5
   \<and> simulate_macro_cluster 3 ''Quiet day'' \<noteq> simulate_macro_cluster 5 ''Quiet day''"
  by code_simp

subsection \<open>The floor of 20 and short horizons\<close>

text \<open>
  C10. In the floor-20 keyword script \<open>compute_impact_score\<close> returns a value in
  \<open>[20, 100]\<close> for every headline, and exactly 20 for a headline without any severity
  keyword. Hence, for every horizon of at most one year, every headline classified
  \<open>macro\<close> passes the horizon gate, and the run on any portfolio whose weights sum to 100
  ends with a suggested portfolio, computed from the rule of the headline's theme.
\<close>

theorem floor20_short_horizon_rebalances:
  "20 \<le> compute_impact_score_hor headline \<and> compute_impact_score_hor headline \<le> 100
   \<and> (\<not> any_in (map fst severity_weights_hor) (lower headline)
        \<longrightarrow> compute_impact_score_hor headline = 20)
   \<and> (horizon_years \<le> 1 \<and> fst (classify_news_hor headline) = ''macro''
        \<longrightarrow> horizon_threshold_hor (compute_impact_score_hor headline) horizon_years)
   \<and> (horizon_years \<le> 1 \<and> fst (classify_news_hor headline) = ''macro''
        \<and> sum_values weights = 100
        \<longrightarrow> (\<exists>p rule.
               map_of macro_rebalance_rules (snd (classify_news_hor headline)) = Some rule
               \<and> analyze_hor weights horizon_years headline = Suggested p))"
  using compute_impact_score_hor_range [of headline]
    compute_impact_score_hor_no_keyword [of headline]
    horizon_gate_short [of horizon_years headline]
    analyze_hor_macro [of horizon_years headline weights]
  by blast

theorem floor20_short_horizon_rebalances_witness:
  "\<not> any_in (map fst severity_weights_hor) (lower ''Fed raises interest'')
   \<and> compute_impact_score_hor ''Fed raises interest'' = 20
   \<and> (1::rat) \<le> 1
   \<and> fst (classify_news_hor ''Fed raises interest'') = ''macro''
   \<and> sum_values (initial_weights 20 20 20 20 20) = 100
   \<and> horizon_threshold_hor (compute_impact_score_hor ''Fed raises interest'') 1
   \<and> (\<exists>p. analyze_hor (initial_weights 20 20 20 20 20) 1 ''Fed raises interest'' = Suggested p)
   \<and> analyze_hor (initial_weights 20 20 20 20 20) 1 ''Fed raises interest''
       = Suggested [(''Equities'', 18), (''Bonds'', 22), (''ETFs'', 20), (''Crypto'', 20),
                    (''Commodities'', 20)]"
proof -
  have k: "\<not> any_in (map fst severity_weights_hor) (lower ''Fed raises interest'')"
    by code_simp
  have h: "(1::rat) \<le> 1" by simp
  have m: "fst (classify_news_hor ''Fed raises interest'') = ''macro''" by code_simp
  have s: "sum_values (initial_weights 20 20 20 20 20) = 100" by code_simp
  have v: "analyze_hor (initial_weights 20 20 20 20 20) 1 ''Fed raises interest''
       = Suggested [(''Equities'', 18), (''Bonds'', 22), (''ETFs'', 20), (''Crypto'', 20),
                    (''Commodities'', 20)]" by code_simp
  note inst = floor20_short_horizon_rebalances
    [of "''Fed raises interest''" 1 "initial_weights 20 20 20 20 20"]
  from inst k have 1: "compute_impact_score_hor ''Fed raises interest'' = 20" by blast
  from inst h m
  have 2: "horizon_threshold_hor (compute_impact_score_hor ''Fed raises interest'') 1"
    by blast
  from inst h m s
  have 3: "\<exists>p. analyze_hor (initial_weights 20 20 20 20 20) 1 ''Fed raises interest'' = Suggested p"
    by blast
  from k h m s v 1 2 3 show ?thesis by blast
qed

subsection \<open>Negative weights\<close>

text \<open>
  C2. No \<open>apply_rebalance\<close> clamps a weight that the rule pushed below zero; only
  \<open>generate_suggested_portfolio\<close> of v0.1 clips at zero before it divides by the total.
  The runs below start from the form's weights Equities 0 and Bonds 100 and a headline
  with the theme interest rate: the v2.1 script suggests Equities -3, the horizon-aware
  script Equities -4.4, the embedding script Equities -2.96. The last line is the v0.1
  function on a weight that its shift makes negative: it comes back as 0.
\<close>

theorem apply_rebalance_keeps_negative_weight:
  "sum_values (initial_weights 0 100 0 0 0) = 100
   \<and> classify_news_lex ''Fed hikes rates as inflation rises'' = (''macro'', ''interest_rate'')
   \<and> compute_impact_score_lex ''Fed hikes rates as inflation rises'' = 30
   \<and> apply_shifts (initial_weights 0 100 0 0 0) [(''Equities'', -10), (''Bonds'', 10)] (3/10)
       = Inr [(''Equities'', -3), (''Bonds'', 103), (''ETFs'', 0), (''Crypto'', 0),
              (''Commodities'', 0)]
   \<and> analyze_lex (initial_weights 0 100 0 0 0) ''Fed hikes rates as inflation rises''
       = Suggested [(''Equities'', -3), (''Bonds'', 103), (''ETFs'', 0), (''Crypto'', 0),
                    (''Commodities'', 0)]
   \<and> analyze_hor (initial_weights 0 100 0 0 0) 1 ''Fed hikes rates as inflation rises''
       = Suggested [(''Equities'', -44/10), (''Bonds'', 1044/10), (''ETFs'', 0), (''Crypto'', 0),
                    (''Commodities'', 0)]
   \<and> apply_rebalance_emb (initial_weights 0 100 0 0 0) ''interest_rates'' 30
       = Inr [(''Equities'', -296/100), (''Bonds'', 10296/100), (''ETFs'', 0), (''Crypto'', 0),
              (''Commodities'', 0)]
   \<and> generate_suggested_portfolio 10000 0
        [\<lparr>Asset = ''SPY'', Weight = 2/100, Allocation = 200\<rparr>,
         \<lparr>Asset = ''GLD'', Weight = 98/100, Allocation = 9800\<rparr>]
       = Inr (Frame [\<lparr>Asset = ''SPY'', Weight = 0, Allocation = 0\<rparr>,
                     \<lparr>Asset = ''GLD'', Weight = 1, Allocation = 10000\<rparr>])"
  by code_simp

end
